theory Spec2Isabelle
  imports Main "HOL-Library.Sublist"
begin

section \<open>The project management script (\<^verbatim>\<open>scripts/manage-project.ts\<close>)\<close>

text \<open>
  The script reads its command line, validates it, and then brings one version of the
  hosted documentation into a known state: it optionally forks the version, deletes and
  recreates the categories, uploads the OpenAPI file, rebuilds markdown tables, uploads
  the guides and finally uploads the reference docs in a bounded retry loop.

  The embedding is a trace semantics. Every function returns the list of events it
  produces (log lines, HTTP requests, awaits, subprocess invocations, sleeps) together
  with its result; a thrown exception or a rejected promise is the \<open>Inl\<close> of a sum.
  What the remote service and the subprocesses answer is not decided by the script: it is
  read from a \<open>world\<close>, over which the theorems quantify.
\<close>

subsection \<open>JavaScript values delivered by the argument parser\<close>

text \<open>
  \<^verbatim>\<open>minimist\<close> yields \<^verbatim>\<open>undefined\<close> for an absent flag, \<^verbatim>\<open>true\<close> for a bare flag, a
  number for a numeric argument, a string otherwise, and an array for a repeated flag.
  Numbers are modelled by integers, rendered in plain decimal notation, which is what
  JavaScript prints for an integer below \<^verbatim>\<open>1e21\<close> in absolute value; larger numbers and
  fractions are outside the model.
\<close>

datatype jsval = JUndefined | JBool bool | JNum int | JStr string | JArr "jsval list"

text \<open>Truthiness, as tested by \<^verbatim>\<open>!x\<close>, \<^verbatim>\<open>x || y\<close> and \<^verbatim>\<open>x ? a : b\<close>.\<close>

fun truthy :: "jsval \<Rightarrow> bool" where
  "truthy JUndefined = False"
| "truthy (JBool b) = b"
| "truthy (JNum n) = (n \<noteq> 0)"
| "truthy (JStr s) = (s \<noteq> [])"
| "truthy (JArr xs) = True"

text \<open>\<^verbatim>\<open>a || b\<close> yields \<^verbatim>\<open>a\<close> when it is truthy and \<^verbatim>\<open>b\<close> otherwise.\<close>

definition js_or :: "jsval \<Rightarrow> jsval \<Rightarrow> jsval" where
  "js_or a b = (if truthy a then a else b)"

text \<open>Decimal rendering of a natural number.\<close>

fun show_nat :: "nat \<Rightarrow> string" where
  "show_nat n =
     (if n < 10 then [''0123456789'' ! n]
      else show_nat (n div 10) @ [''0123456789'' ! (n mod 10)])"

declare show_nat.simps [simp del]

text \<open>
  String conversion, as performed by a template literal \<^verbatim>\<open>`${x}`\<close>. An array renders
  its elements separated by commas, an \<^verbatim>\<open>undefined\<close> element as the empty string.
\<close>

fun toString :: "jsval \<Rightarrow> string"
  and join_elements :: "jsval list \<Rightarrow> string"
  and element_toString :: "jsval \<Rightarrow> string" where
  "toString JUndefined = ''undefined''"
| "toString (JBool b) = (if b then ''true'' else ''false'')"
| "toString (JNum n) = (if n < 0 then ''-'' @ show_nat (nat (- n)) else show_nat (nat n))"
| "toString (JStr s) = s"
| "toString (JArr xs) = join_elements xs"
| "join_elements [] = []"
| "join_elements [x] = element_toString x"
| "join_elements (x # y # ys) = element_toString x @ '','' @ join_elements (y # ys)"
| "element_toString JUndefined = []"
| "element_toString (JBool b) = toString (JBool b)"
| "element_toString (JNum n) = toString (JNum n)"
| "element_toString (JStr s) = s"
| "element_toString (JArr xs) = join_elements xs"

text \<open>\<^verbatim>\<open>s.includes(p)\<close>: the string \<open>p\<close> occurs in \<open>s\<close> as a contiguous substring.\<close>

fun includes_str :: "string \<Rightarrow> string \<Rightarrow> bool" where
  "includes_str [] p = (p = [])"
| "includes_str (c # cs) p = (prefix p (c # cs) \<or> includes_str cs p)"

subsection \<open>Command line and version identifier\<close>

record options =
  opt_versionTag :: jsval
  opt_vt :: jsval
  opt_version :: jsval
  opt_v :: jsval
  opt_create :: jsval
  opt_update :: jsval
  opt_help :: jsval
  opt_h :: jsval

definition versionTag :: "options \<Rightarrow> jsval" where
  "versionTag opts = js_or (opt_versionTag opts) (opt_vt opts)"

definition versionOption :: "options \<Rightarrow> jsval" where
  "versionOption opts = js_or (opt_version opts) (opt_v opts)"

definition help_option :: "options \<Rightarrow> jsval" where
  "help_option opts = js_or (opt_help opts) (opt_h opts)"

definition mainVersion :: string where
  "mainVersion = ''v2018-08-01''"

text \<open>
  \<^verbatim>\<open>versionOption || versionTag ? `${mainVersion}-${versionTag}` : undefined\<close>.
  The conditional operator binds weaker than \<^verbatim>\<open>||\<close>, so the disjunction is the
  condition and the template is the only value ever produced.
\<close>

definition version :: "options \<Rightarrow> jsval" where
  "version opts =
     (if truthy (js_or (versionOption opts) (versionTag opts))
      then JStr (mainVersion @ ''-'' @ toString (versionTag opts))
      else JUndefined)"

definition listOfGuideCategories :: "string list" where
  "listOfGuideCategories =
     [''Getting started'', ''Development'', ''Building blocks'', ''Campaigns Recipes'',
      ''Discounts Recipes'', ''Distributions Recipes'', ''More'']"

definition listOfReferenceCategories :: "string list" where
  "listOfReferenceCategories = [''Introduction'']"

subsection \<open>Events, errors and the world\<close>

datatype colour = Green | Red

datatype request =
    PostVersion string string \<comment> \<open>\<^verbatim>\<open>POST /version\<close>: \<^verbatim>\<open>from\<close>, \<^verbatim>\<open>version\<close>\<close>
  | GetCategories string \<comment> \<open>\<^verbatim>\<open>GET /categories\<close>: version header\<close>
  | DeleteCategory string string \<comment> \<open>\<^verbatim>\<open>DELETE /categories/{slug}\<close>: version header, slug\<close>
  | PostCategory string string \<comment> \<open>\<^verbatim>\<open>POST /categories\<close>: version header, title\<close>
  | PutCategory string string string
      \<comment> \<open>\<^verbatim>\<open>PUT /categories/{slug}\<close>: version header, slug, the \<^verbatim>\<open>type\<close> of the body\<close>
  | GetApiSpecifications string \<comment> \<open>\<^verbatim>\<open>GET /api-specification\<close>: version header\<close>
  | DeleteApiSpecification string \<comment> \<open>\<^verbatim>\<open>DELETE /api-specification/{id}\<close>: path segment\<close>

datatype event =
    Log colour string \<comment> \<open>\<^verbatim>\<open>console.log(colors.green(...))\<close> or \<^verbatim>\<open>colors.red\<close>\<close>
  | Request request \<comment> \<open>\<^verbatim>\<open>fetch\<close> is called: the request is issued\<close>
  | Await "request list" \<comment> \<open>the run is suspended until these requests have settled\<close>
  | Exec string \<comment> \<open>\<^verbatim>\<open>exec(command, callback)\<close>: a subprocess runs to its callback\<close>
  | Sleep int \<comment> \<open>\<^verbatim>\<open>setTimeout\<close> of that many milliseconds is awaited\<close>

datatype error = Error string | TypeError string

text \<open>\<^verbatim>\<open>error.toString()\<close>: the name, and the message after a colon when there is one.\<close>

fun error_toString :: "error \<Rightarrow> string" where
  "error_toString (Error m) = (if m = [] then ''Error'' else ''Error: '' @ m)"
| "error_toString (TypeError m) = (if m = [] then ''TypeError'' else ''TypeError: '' @ m)"

text \<open>What an awaited \<^verbatim>\<open>fetch\<close> does: it rejects, or it yields the response.\<close>

datatype 'a fetch_result = Rejects error | Responds 'a

text \<open>How a promise built around a subprocess callback ends.\<close>

datatype 'a promise_outcome =
    Resolved 'a \<comment> \<open>\<^verbatim>\<open>resolve(x)\<close> was called\<close>
  | Rejected error \<comment> \<open>\<^verbatim>\<open>reject(e)\<close> was called\<close>
  | Uncaught error \<comment> \<open>the callback threw: the promise never settles, the process dies\<close>

record category =
  slug :: string
  title :: string

record api_specification =
  spec_id :: string
  spec_title :: string

text \<open>The three arguments of an \<^verbatim>\<open>exec\<close> callback.\<close>

record exec_outcome =
  exec_error :: "error option"
  stdout :: string
  stderr :: string

text \<open>
  The answers of the environment. The two category listings are separate fields, since
  the same request is sent twice; the reference upload is indexed by the number of
  uploads already attempted.
\<close>

record world =
  fork_response :: "nat fetch_result"
  categories_before :: "category list fetch_result"
  delete_category :: "string \<Rightarrow> unit fetch_result"
  create_category :: "string \<Rightarrow> unit fetch_result"
  categories_after :: "category list fetch_result"
  update_category :: "string \<Rightarrow> unit fetch_result"
  api_specifications :: "api_specification list fetch_result"
  delete_specification :: "string \<Rightarrow> unit fetch_result"
  openapi_upload :: exec_outcome
  build_tables :: exec_outcome
  update_tables :: exec_outcome
  guides_upload :: exec_outcome
  reference_upload :: "nat \<Rightarrow> exec_outcome"

type_synonym 'a run = "event list \<times> (error + 'a)"

text \<open>Sequencing of two awaited steps: an error of the first ends the run there.\<close>

definition and_then :: "'a run \<Rightarrow> ('a \<Rightarrow> 'b run) \<Rightarrow> 'b run" where
  "and_then m f =
     (case snd m of
        Inl e \<Rightarrow> (fst m, Inl e)
      | Inr x \<Rightarrow> (fst m @ fst (f x), snd (f x)))"

definition console_log :: "colour \<Rightarrow> string \<Rightarrow> unit run" where
  "console_log c s = ([Log c s], Inr ())"

text \<open>\<^verbatim>\<open>await fetch(...)\<close>: the request is issued and awaited.\<close>

definition fetch :: "request \<Rightarrow> 'a fetch_result \<Rightarrow> 'a run" where
  "fetch req res =
     ([Request req, Await [req]], case res of Rejects e \<Rightarrow> Inl e | Responds x \<Rightarrow> Inr x)"

text \<open>
  The promise returned by one call of an async function that performs at most one
  \<^verbatim>\<open>fetch\<close>: the call throws before the request is issued, or the request is issued
  and the promise settles as the request does.
\<close>

datatype pending = Rejected_now error | Pending request "unit fetch_result"

fun issued :: "pending list \<Rightarrow> request list" where
  "issued [] = []"
| "issued (Rejected_now e # ps) = issued ps"
| "issued (Pending r res # ps) = r # issued ps"

fun thrown :: "pending list \<Rightarrow> error list" where
  "thrown [] = []"
| "thrown (Rejected_now e # ps) = e # thrown ps"
| "thrown (Pending r res # ps) = thrown ps"

fun rejections :: "pending list \<Rightarrow> error list" where
  "rejections [] = []"
| "rejections (Rejected_now e # ps) = rejections ps"
| "rejections (Pending r (Rejects e) # ps) = e # rejections ps"
| "rejections (Pending r (Responds u) # ps) = rejections ps"

text \<open>
  \<^verbatim>\<open>await Promise.all(arr.map(asyncFn))\<close>. The map calls \<open>asyncFn\<close> on every element
  before anything is awaited, so all requests are issued first. A call that threw is an
  already rejected promise and makes the join reject before any request settles;
  otherwise the join waits for all requests and rejects if one of them does (the first
  in list order is taken as the reason).
\<close>

definition asyncMap :: "'a list \<Rightarrow> ('a \<Rightarrow> pending) \<Rightarrow> unit run" where
  "asyncMap arr asyncFn =
     (let ps = map asyncFn arr in
      case thrown ps of
        e # es \<Rightarrow> (map Request (issued ps), Inl e)
      | [] \<Rightarrow>
          (map Request (issued ps) @ [Await (issued ps)],
           case rejections ps of e # es \<Rightarrow> Inl e | [] \<Rightarrow> Inr ()))"

subsection \<open>Validation of the command line\<close>

definition help_text :: string where
  \<open>help_text =
     ''options:'' @
     ''\<newline>"versionTag" or "vt" for versionTag'' @
     ''\<newline>"version" or "v" for version'' @
     ''\<newline>"create" if you want to create such version'' @
     ''\<newline>"update" if you want to update such version'' @
     ''\<newline>\<newline>versionTag or version is required!'' @
     ''\<newline>create or update option is required!'' @
     ''\<newline>\<newline>examples:'' @
     ''\<newline>npm run manage-project -- --vt=piotr-123 --create'' @
     ''\<newline>npm run manage-project -- --v=v2018-08-01-piotr-123 --create'' @
     ''\<newline>npm run manage-project -- --vt=piotr-123 --update'' @
     ''\<newline>npm run manage-project -- --v=v2018-08-01-piotr-123 --update''\<close>

definition check_help_text :: string where
  \<open>check_help_text =
     '', check `help` for more information\<newline>run 'npm run manage-project -- --help'' @ [CHR 0x27]\<close>

definition missing_version_text :: string where
  \<open>missing_version_text =
     ''invalid arguments, missing `version` or `versionTag`'' @ check_help_text\<close>

definition missing_mode_text :: string where
  \<open>missing_mode_text =
     ''invalid arguments, missing `update` or `create`'' @ check_help_text\<close>

definition conflicting_text :: string where
  \<open>conflicting_text =
     ''invalid arguments, you provided conflicting arguments `update` and `create`'' @
     check_help_text\<close>

definition printHelp :: "event list" where
  "printHelp = [Log Green help_text]"

text \<open>\<^verbatim>\<open>validateOptions\<close>: what it prints, and whether the options are accepted.\<close>

definition validateOptions :: "jsval \<Rightarrow> jsval \<Rightarrow> jsval \<Rightarrow> jsval \<Rightarrow> event list \<times> bool" where
  "validateOptions hlp ver create update =
     (if truthy hlp \<or> (\<not> truthy ver \<and> \<not> truthy create \<and> \<not> truthy update)
      then (printHelp, False)
      else if \<not> truthy ver then ([Log Red missing_version_text], False)
      else if \<not> truthy create \<and> \<not> truthy update then ([Log Red missing_mode_text], False)
      else if truthy create \<and> truthy update then ([Log Red conflicting_text], False)
      else ([], True))"

subsection \<open>Forking and cleaning a version\<close>

text \<open>
  \<^verbatim>\<open>createNewVersion\<close>: any status other than 200, and a rejected request, are caught,
  reported in red and thrown again, wrapped in a new \<^verbatim>\<open>Error\<close>.
\<close>

definition createNewVersion :: "world \<Rightarrow> string \<Rightarrow> unit run" where
  \<open>createNewVersion w ver =
     (let req = PostVersion mainVersion ver;
          caught = (\<lambda>e. ([Request req, Await [req],
                           Log Red (''Error while creating fork from '' @ mainVersion @ ''!'')],
                          Inl (Error (error_toString e))))
      in case fork_response w of
           Rejects e \<Rightarrow> caught e
         | Responds status \<Rightarrow>
             if status \<noteq> 200
             then caught (Error (''Response status: '' @ show_nat status @
                                 '', maybe this versionTag is already created?''))
             else ([Request req, Await [req],
                    Log Green (''FORK CREATED! VERSION "'' @ ver @ ''"'')], Inr ()))\<close>

definition getAllCategories :: "string \<Rightarrow> category list fetch_result \<Rightarrow> category list run" where
  "getAllCategories ver res = fetch (GetCategories ver) res"

definition deleteCategory :: "world \<Rightarrow> string \<Rightarrow> string \<Rightarrow> pending" where
  "deleteCategory w ver s = Pending (DeleteCategory ver s) (delete_category w s)"

definition createCategory :: "world \<Rightarrow> string \<Rightarrow> string \<Rightarrow> unit run" where
  "createCategory w ver t = fetch (PostCategory ver t) (create_category w t)"

definition updateCategory :: "world \<Rightarrow> string \<Rightarrow> string \<Rightarrow> string \<Rightarrow> pending" where
  "updateCategory w ver s kind = Pending (PutCategory ver s kind) (update_category w s)"

definition getAllApiSpecifications ::
  "string \<Rightarrow> api_specification list fetch_result \<Rightarrow> api_specification list run" where
  "getAllApiSpecifications ver res = fetch (GetApiSpecifications ver) res"

text \<open>
  \<^verbatim>\<open>deleteSpecification\<close> is handed to \<^verbatim>\<open>map\<close> directly, so its parameter \<^verbatim>\<open>id\<close> is
  the specification object itself, and the template renders an object as
  \<^verbatim>\<open>[object Object]\<close>.
\<close>

definition deleteSpecification :: "world \<Rightarrow> api_specification \<Rightarrow> pending" where
  "deleteSpecification w spec =
     Pending (DeleteApiSpecification ''[object Object]'')
             (delete_specification w ''[object Object]'')"

text \<open>The loop \<^verbatim>\<open>for (const categoryTitle of [...]) await createCategory(...)\<close>.\<close>

fun createCategories :: "world \<Rightarrow> string \<Rightarrow> string list \<Rightarrow> unit run" where
  "createCategories w ver [] = ([], Inr ())"
| "createCategories w ver (categoryTitle # rest) =
     and_then (createCategory w ver categoryTitle) (\<lambda>_. createCategories w ver rest)"

text \<open>
  The callback of the reference update: reading \<^verbatim>\<open>.slug\<close> of the \<^verbatim>\<open>undefined\<close> that
  \<^verbatim>\<open>find\<close> returns for a missing title throws a \<^verbatim>\<open>TypeError\<close>.
\<close>

definition slug_of_undefined :: error where
  \<open>slug_of_undefined = TypeError ''Cannot read properties of undefined (reading 'slug')''\<close>

definition updateReferenceCategory :: "world \<Rightarrow> string \<Rightarrow> category list \<Rightarrow> string \<Rightarrow> pending" where
  "updateReferenceCategory w ver allCategories categoryTitle =
     (case find (\<lambda>category. title category = categoryTitle) allCategories of
        None \<Rightarrow> Rejected_now slug_of_undefined
      | Some category \<Rightarrow> updateCategory w ver (slug category) ''reference'')"

definition cleanProject :: "world \<Rightarrow> string \<Rightarrow> unit run" where
  \<open>cleanProject w ver =
     and_then (getAllCategories ver (categories_before w)) (\<lambda>categoriesToDelete.
     and_then (asyncMap categoriesToDelete (\<lambda>category. deleteCategory w ver (slug category))) (\<lambda>_.
     and_then (console_log Green ''OLD CATEGORIES DELETED!'') (\<lambda>_.
     and_then (createCategories w ver (listOfGuideCategories @ listOfReferenceCategories)) (\<lambda>_.
     and_then (console_log Green ''NEW CATEGORIES CREATED!'') (\<lambda>_.
     and_then (getAllCategories ver (categories_after w)) (\<lambda>allCategories.
     and_then (asyncMap listOfReferenceCategories (updateReferenceCategory w ver allCategories)) (\<lambda>_.
     and_then (console_log Green ''REFERENCE CATEGORIES UPDATED!'') (\<lambda>_.
     and_then (getAllApiSpecifications ver (api_specifications w)) (\<lambda>allApiSpecifications.
     and_then (asyncMap allApiSpecifications (deleteSpecification w)) (\<lambda>_.
     and_then (console_log Green ''API SPECIFICATIONS DELETED!'') (\<lambda>_.
     console_log Green (''VERSION "'' @ ver @ ''" IS CLEANED UP!''))))))))))))\<close>

subsection \<open>Subprocess steps\<close>

text \<open>
  Each step starts a subprocess and decides in the callback. A \<^verbatim>\<open>throw\<close> in the
  callback is outside every promise: it is an uncaught exception, which ends the process.
  \<^verbatim>\<open>error?.toString?.()\<close> is \<^verbatim>\<open>undefined\<close> when the subprocess reported no error.
\<close>

definition error_text :: "exec_outcome \<Rightarrow> string option" where
  "error_text out = map_option error_toString (exec_error out)"

definition upload_timed_out :: string where
  \<open>upload_timed_out =
     ''We're sorry, your upload request timed out. '' @
     ''Please try again or split your file up into smaller chunks.''\<close>

definition uploadOpenApiFile :: "world \<Rightarrow> string \<Rightarrow> unit run" where
  \<open>uploadOpenApiFile w ver =
     (let out = openapi_upload w;
          started =
            [Log Green ''UPLOADING OPEN API FILE... PLEASE WAIT... THIS MAY TAKE UP TO A MINUTE'',
             Exec (''rdme openapi ./reference/OpenAPI.json --version='' @ ver @ '' --create'')]
      in if (case error_text out of None \<Rightarrow> False | Some t \<Rightarrow> includes_str t upload_timed_out)
            \<or> stdout out \<noteq> []
         then (started @ [Log Green ''OPEN API FILE WAS UPLOADED''], Inr ())
         else (started,
               Inl (Error (case error_text out of
                             None \<Rightarrow> ''OPEN API FILE WAS NOT UPLOADED''
                           | Some t \<Rightarrow> if t \<noteq> [] then t else ''OPEN API FILE WAS NOT UPLOADED''))))\<close>

text \<open>\<^verbatim>\<open>colors.red(undefined)\<close> prints \<^verbatim>\<open>undefined\<close>.\<close>

definition red_error :: "exec_outcome \<Rightarrow> event" where
  "red_error out = Log Red (case error_text out of None \<Rightarrow> ''undefined'' | Some t \<Rightarrow> t)"

definition buildMdTables :: "world \<Rightarrow> unit run" where
  \<open>buildMdTables w =
     (let out = build_tables w;
          started = [Log Green ''BUILDING MD TABLES FROM OPEN API...'',
                     Exec ''npm run build-md-tables-from-openapi'']
      in if stdout out \<noteq> []
         then (started @ [Log Green ''MD TABLES WERE BUILDED SUCCESSFULLY!''], Inr ())
         else (started @ [red_error out], Inl (Error ''MD TABLES WERE NOT BUILDED!'')))\<close>

definition updateMdTablesInDocs :: "world \<Rightarrow> unit run" where
  \<open>updateMdTablesInDocs w =
     (let out = update_tables w;
          started = [Log Green ''UPDATING MD TABLES IN DOCS...'',
                     Exec ''npm run update-md-tables-in-doc'']
      in if stdout out \<noteq> []
         then (started @ [Log Green ''MD TABLES WERE UPDATED IN DOCS SUCCESSFULLY!''], Inr ())
         else (started @ [red_error out], Inl (Error ''MD TABLES WERE NOT UPDATED IN DOCS!'')))\<close>

definition uploadGuideFiles :: "world \<Rightarrow> string \<Rightarrow> unit run" where
  \<open>uploadGuideFiles w ver =
     (let out = guides_upload w;
          started = [Log Green ''UPLOADING GUIDES DOC FILES...'',
                     Exec (''rdme docs ./docs/guides --version='' @ ver)]
      in if includes_str (stdout out) ''successfully created''
         then (started @ [Log Green ''GUIDES DOC FILES WERE UPLOADED!''], Inr ())
         else (started @ [red_error out], Inl (Error ''GUIDES DOC WERE NOT UPLOADED!'')))\<close>

subsection \<open>Uploading the reference docs\<close>

definition category_not_found :: string where
  \<open>category_not_found =
     ''We couldn't save this doc '' @
     ''(Unable to find a category with the slug 'voucherify-api')''\<close>

text \<open>
  \<^verbatim>\<open>updateReferenceDocs\<close>: one upload attempt, deciding on the callback's arguments. The
  test of \<^verbatim>\<open>stderr\<close> comes first, as in the source.
\<close>

definition updateReferenceDocs_callback :: "exec_outcome \<Rightarrow> bool promise_outcome" where
  \<open>updateReferenceDocs_callback out =
     (if includes_str (stderr out) category_not_found then Resolved False
      else if includes_str (stdout out) ''successfully created'' then Resolved True
      else Resolved False)\<close>

definition updateReferenceDocs :: "string \<Rightarrow> exec_outcome \<Rightarrow> event list \<times> bool promise_outcome" where
  \<open>updateReferenceDocs ver out =
     ([Exec (''rdme docs ./docs/reference-docs --version='' @ ver)],
      updateReferenceDocs_callback out)\<close>

text \<open>
  The loop \<^verbatim>\<open>for (let i = 1; i <= maxNumberOfUploadingAttempts; i++)\<close>, from a given
  \<open>i\<close>. The upload of round \<open>i\<close> is the \<open>i\<close>-th run of the subprocess. A rejection
  would leave the loop as an exception of the \<^verbatim>\<open>await\<close>.
\<close>

function upload_rounds :: "world \<Rightarrow> string \<Rightarrow> int \<Rightarrow> int \<Rightarrow> int \<Rightarrow> unit run" where
  \<open>upload_rounds w ver maxNumberOfUploadingAttempts timeoutAfterEachFail i =
     (if i \<le> maxNumberOfUploadingAttempts
      then
        (let attempt = updateReferenceDocs ver (reference_upload w (nat (i - 1)))
         in case snd attempt of
              Rejected e \<Rightarrow> (fst attempt, Inl e)
            | Uncaught e \<Rightarrow> (fst attempt, Inl e)
            | Resolved success \<Rightarrow>
                if success
                then (fst attempt @ [Log Green ''REFERENCE DOC FILES WERE UPLOADED!''], Inr ())
                else if i = maxNumberOfUploadingAttempts
                then (fst attempt, Inl (Error ''REFERENCE DOC WERE NOT UPLOADED!''))
                else and_then (fst attempt @ [Sleep timeoutAfterEachFail], Inr ())
                       (\<lambda>_. upload_rounds w ver maxNumberOfUploadingAttempts
                               timeoutAfterEachFail (i + 1)))
      else ([], Inr ()))\<close>
  by pat_completeness auto
termination
  by (relation "measure (\<lambda>(w, ver, m, t, i). nat (m + 1 - i))") auto

declare upload_rounds.simps [simp del]

definition uploadReferenceDocsWithMaxNumberOfAttempts ::
  "world \<Rightarrow> string \<Rightarrow> int \<Rightarrow> int \<Rightarrow> unit run" where
  \<open>uploadReferenceDocsWithMaxNumberOfAttempts w ver maxNumberOfUploadingAttempts timeoutAfterEachFail =
     and_then (console_log Green ''UPLOADING REFERENCE DOC FILES...'')
       (\<lambda>_. upload_rounds w ver maxNumberOfUploadingAttempts timeoutAfterEachFail 1)\<close>

subsection \<open>The run\<close>

text \<open>
  \<^verbatim>\<open>main\<close>. The reference upload is called with its default budget of 6 attempts and
  5000 milliseconds between them. After validation the version is a string; the functions
  below receive its rendering.
\<close>

definition main :: "world \<Rightarrow> jsval \<Rightarrow> jsval \<Rightarrow> jsval \<Rightarrow> jsval \<Rightarrow> unit run" where
  \<open>main w hlp ver create update =
     (let validation = validateOptions hlp ver create update;
          v = toString ver
      in if \<not> snd validation then (fst validation, Inr ())
         else
           and_then (fst validation, Inr ()) (\<lambda>_.
           and_then (if truthy create then createNewVersion w v else ([], Inr ())) (\<lambda>_.
           and_then (cleanProject w v) (\<lambda>_.
           and_then (uploadOpenApiFile w v) (\<lambda>_.
           and_then (buildMdTables w) (\<lambda>_.
           and_then (updateMdTablesInDocs w) (\<lambda>_.
           and_then (uploadGuideFiles w v) (\<lambda>_.
           and_then (uploadReferenceDocsWithMaxNumberOfAttempts w v 6 5000) (\<lambda>_.
           console_log Green
             (''\<newline>\<newline>DONE!\<newline>Visit: https://docs.voucherify.io/'' @ v @ ''/''))))))))))\<close>

text \<open>The whole script: the options are read, the version is derived, \<^verbatim>\<open>main\<close> is called.\<close>

definition script :: "world \<Rightarrow> options \<Rightarrow> unit run" where
  "script w opts = main w (help_option opts) (version opts) (opt_create opts) (opt_update opts)"

text \<open>The remote calls of a trace: requests to the service and subprocess invocations.\<close>

fun is_remote_call :: "event \<Rightarrow> bool" where
  "is_remote_call (Request r) = True"
| "is_remote_call (Exec c) = True"
| "is_remote_call (Log c s) = False"
| "is_remote_call (Await rs) = False"
| "is_remote_call (Sleep n) = False"

definition remote_calls :: "event list \<Rightarrow> event list" where
  "remote_calls tr = filter is_remote_call tr"

subsection \<open>Observations on traces\<close>

text \<open>
  Subprocess invocations. Within the reference upload each of them is one upload attempt.
\<close>

fun is_exec :: "event \<Rightarrow> bool" where
  "is_exec (Exec c) = True"
| "is_exec (Log c s) = False"
| "is_exec (Request r) = False"
| "is_exec (Await rs) = False"
| "is_exec (Sleep n) = False"

definition upload_attempts :: "event list \<Rightarrow> nat" where
  "upload_attempts tr = length (filter is_exec tr)"

text \<open>
  The delays of a trace, in order.
\<close>

fun sleeps :: "event list \<Rightarrow> int list" where
  "sleeps [] = []"
| "sleeps (Sleep n # tr) = n # sleeps tr"
| "sleeps (e # tr) = sleeps tr"

text \<open>
  The command line of one reference upload, as built in \<^verbatim>\<open>updateReferenceDocs\<close>.
\<close>

definition reference_command :: "string \<Rightarrow> string" where
  "reference_command ver = ''rdme docs ./docs/reference-docs --version='' @ ver"

text \<open>
  Category creation: the requests that create a category, the events that issue or await
  one, and the events of creating the given titles one after the other, each awaited
  before the next is issued.
\<close>

fun creates :: "request \<Rightarrow> bool" where
  "creates (PostCategory v t) = True"
| "creates (PostVersion f v) = False"
| "creates (GetCategories v) = False"
| "creates (DeleteCategory v s) = False"
| "creates (PutCategory v s k) = False"
| "creates (GetApiSpecifications v) = False"
| "creates (DeleteApiSpecification p) = False"

fun is_creation :: "event \<Rightarrow> bool" where
  "is_creation (Request r) = creates r"
| "is_creation (Await rs) = list_ex creates rs"
| "is_creation (Log c s) = False"
| "is_creation (Exec c) = False"
| "is_creation (Sleep n) = False"

definition creation_events :: "event list \<Rightarrow> event list" where
  "creation_events tr = filter is_creation tr"

definition creation_sequence :: "string \<Rightarrow> string list \<Rightarrow> event list" where
  "creation_sequence ver titles =
     concat (map (\<lambda>t. [Request (PostCategory ver t), Await [PostCategory ver t]]) titles)"

subsection \<open>Concrete command lines and worlds\<close>

text \<open>
  Inputs at which the theorems below are instantiated: command lines as the parser
  delivers them, outcomes of the upload tool, and worlds. In \<open>calm_world\<close> every
  request and every subprocess succeeds.
\<close>

definition no_options :: options where
  "no_options = \<lparr>opt_versionTag = JUndefined, opt_vt = JUndefined, opt_version = JUndefined,
     opt_v = JUndefined, opt_create = JUndefined, opt_update = JUndefined,
     opt_help = JUndefined, opt_h = JUndefined\<rparr>"

definition version_only :: options where
  "version_only = no_options\<lparr>opt_v := JStr ''v2018-08-01-piotr-123'', opt_create := JBool True\<rparr>"

definition version_and_tag :: options where
  "version_and_tag = no_options\<lparr>opt_version := JStr ''v2018-08-01-piotr-123'',
     opt_versionTag := JStr ''piotr-123'', opt_create := JBool True\<rparr>"

definition create_and_update :: options where
  "create_and_update = no_options\<lparr>opt_vt := JStr ''piotr-123'',
     opt_create := JBool True, opt_update := JBool True\<rparr>"

definition conflict_without_version :: options where
  "conflict_without_version = no_options\<lparr>opt_create := JBool True, opt_update := JBool True\<rparr>"

definition falsy_create :: options where
  "falsy_create = no_options\<lparr>opt_vt := JStr ''piotr-123'',
     opt_create := JNum 0, opt_update := JBool True\<rparr>"

definition successful_upload :: exec_outcome where
  "successful_upload = \<lparr>exec_error = None, stdout = ''successfully created'', stderr = []\<rparr>"

definition category_missing :: exec_outcome where
  "category_missing =
     \<lparr>exec_error = Some (Error ''Command failed: rdme docs ./docs/reference-docs''),
      stdout = [], stderr = category_not_found\<rparr>"

definition connection_refused :: exec_outcome where
  "connection_refused =
     \<lparr>exec_error = Some (Error ''Command failed: rdme docs ./docs/reference-docs''),
      stdout = [], stderr = ''connect ECONNREFUSED''\<rparr>"

definition upload_timeout :: exec_outcome where
  "upload_timeout =
     \<lparr>exec_error = Some (Error upload_timed_out), stdout = [], stderr = upload_timed_out\<rparr>"

definition calm_world :: world where
  "calm_world =
     \<lparr>fork_response = Responds 200,
      categories_before = Responds [\<lparr>slug = ''old'', title = ''Old''\<rparr>],
      delete_category = (\<lambda>s. Responds ()),
      create_category = (\<lambda>t. Responds ()),
      categories_after = Responds [\<lparr>slug = ''introduction'', title = ''Introduction''\<rparr>],
      update_category = (\<lambda>s. Responds ()),
      api_specifications = Responds [\<lparr>spec_id = ''abc'', spec_title = ''Voucherify''\<rparr>],
      delete_specification = (\<lambda>s. Responds ()),
      openapi_upload = successful_upload,
      build_tables = successful_upload,
      update_tables = successful_upload,
      guides_upload = successful_upload,
      reference_upload = (\<lambda>k. successful_upload)\<rparr>"

definition failing_world :: world where
  "failing_world = calm_world\<lparr>reference_upload := (\<lambda>k. connection_refused),
     openapi_upload := connection_refused\<rparr>"

definition settling_world :: world where
  "settling_world = calm_world\<lparr>openapi_upload := upload_timeout,
     reference_upload := (\<lambda>k. if k < 2 then category_missing else successful_upload)\<rparr>"

definition recovering_world :: world where
  "recovering_world = calm_world\<lparr>reference_upload :=
     (\<lambda>k. if k = 0 then connection_refused else successful_upload)\<rparr>"

text \<open>
  The version already has a category titled \<^verbatim>\<open>Introduction\<close>, and its deletion has no
  effect on the service (the script does not read the answer to a deletion). After the
  categories are recreated the service lists two categories with this title, the older
  one first.
\<close>

definition twin_world :: world where
  "twin_world = calm_world\<lparr>
     categories_before := Responds [\<lparr>slug = ''introduction'', title = ''Introduction''\<rparr>],
     categories_after :=
       Responds [\<lparr>slug = ''introduction'', title = ''Introduction''\<rparr>,
                 \<lparr>slug = ''introduction-1'', title = ''Introduction''\<rparr>]\<rparr>"

text \<open>
  The second listing lacks the reference category.
\<close>

definition bare_world :: world where
  "bare_world = calm_world\<lparr>categories_after :=
     Responds [\<lparr>slug = ''getting-started'', title = ''Getting started''\<rparr>]\<rparr>"

section \<open>Properties of the script\<close>

subsection \<open>Strings and sequencing\<close>

text \<open>
  \<open>includes_str\<close> is the substring test.
\<close>

lemma includes_str_sublist: "includes_str s p = sublist p s"
  by (induction s) (simp_all add: sublist_Cons_right)

lemma includes_str_iff: "includes_str s p \<longleftrightarrow> (\<exists>before after. s = before @ p @ after)"
  by (simp add: includes_str_sublist sublist_def)

lemma includes_str_self_suffix: "includes_str (a @ p) p"
  by (simp add: includes_str_iff) (rule exI [of _ a], simp)

lemma error_toString_nonempty: "error_toString e \<noteq> []"
  by (cases e) simp_all

text \<open>
  Traces and results of sequenced steps.
\<close>

lemma and_then_nil: "and_then ([], Inr x) f = f x"
  by (simp add: and_then_def)

lemma snd_and_then:
  "snd (and_then m f) = (case snd m of Inl e \<Rightarrow> Inl e | Inr x \<Rightarrow> snd (f x))"
  by (simp add: and_then_def split: sum.split)

lemma snd_and_then_Inr:
  "snd (and_then m f) = Inr y \<longleftrightarrow> (\<exists>x. snd m = Inr x \<and> snd (f x) = Inr y)"
  by (simp add: and_then_def split: sum.split)

lemma filter_and_then:
  "filter P (fst (and_then m f)) =
     filter P (fst m) @ (case snd m of Inl e \<Rightarrow> [] | Inr x \<Rightarrow> filter P (fst (f x)))"
  by (simp add: and_then_def split: sum.split)

lemma set_and_then:
  "set (fst (and_then m f)) =
     set (fst m) \<union> (case snd m of Inl e \<Rightarrow> {} | Inr x \<Rightarrow> set (fst (f x)))"
  by (simp add: and_then_def split: sum.split)

lemma remote_calls_and_then:
  "remote_calls (fst (and_then m f)) =
     remote_calls (fst m) @ (case snd m of Inl e \<Rightarrow> [] | Inr x \<Rightarrow> remote_calls (fst (f x)))"
  by (simp add: and_then_def remote_calls_def split: sum.split)

lemma fetch_simps:
  "fst (fetch r res) = [Request r, Await [r]]"
  "snd (fetch r res) = (case res of Rejects e \<Rightarrow> Inl e | Responds x \<Rightarrow> Inr x)"
  by (simp_all add: fetch_def)

lemma console_log_simps:
  "fst (console_log c s) = [Log c s]" "snd (console_log c s) = Inr ()"
  by (simp_all add: console_log_def)

subsection \<open>The version identifier\<close>

text \<open>
  A version is derived exactly when one of the two flags is truthy, and it is always built
  from the tag.
\<close>

lemma truthy_version:
  "truthy (version opts) \<longleftrightarrow> truthy (versionOption opts) \<or> truthy (versionTag opts)"
  by (simp add: version_def js_or_def mainVersion_def)

lemma version_of_tag:
  "truthy (versionTag opts) \<Longrightarrow>
   version opts = JStr (mainVersion @ ''-'' @ toString (versionTag opts))"
  by (simp add: version_def js_or_def)

text \<open>
  Claim C1: an invocation that supplies \<^verbatim>\<open>--version\<close>/\<^verbatim>\<open>-v\<close> with a full identifier and
  no tag uses exactly that identifier; one that supplies only the tag uses the base name,
  a dash and the tag. The second half holds (\<open>version_of_tag\<close>); the first does not.
  For the command line \<^verbatim>\<open>--v=v2018-08-01-piotr-123 --create\<close>, which the help text of the
  script gives as an example, the derived identifier is \<^verbatim>\<open>v2018-08-01-undefined\<close>: the
  supplied value only serves as the condition, and the absent tag is rendered into the
  template.
\<close>

theorem version_option_is_dropped:
  "versionOption version_only = JStr ''v2018-08-01-piotr-123'' \<and>
   versionTag version_only = JUndefined \<and>
   version version_only = JStr ''v2018-08-01-undefined''"
  by (simp add: version_def versionOption_def versionTag_def js_or_def mainVersion_def
      version_only_def no_options_def)

subsection \<open>Validation\<close>

text \<open>
  Claim C2, as amended. Truthy and falsy are meant as JavaScript tests the parsed value: an
  absent flag, \<^verbatim>\<open>0\<close> and the empty string are falsy. Whenever help is truthy, or neither
  the version nor the tag is truthy, or \<^verbatim>\<open>create\<close> and \<^verbatim>\<open>update\<close> are both truthy or
  both falsy, the run performs no remote call (no request and no subprocess), prints
  exactly one message and ends normally. The message is the usage text when help is
  truthy or when version, tag, \<^verbatim>\<open>create\<close> and \<^verbatim>\<open>update\<close> are all falsy; otherwise the
  missing-version error when neither the version nor the tag is truthy; otherwise the
  missing-update-or-create error when \<^verbatim>\<open>create\<close> and \<^verbatim>\<open>update\<close> are both falsy;
  otherwise, with \<^verbatim>\<open>create\<close> and \<^verbatim>\<open>update\<close> both truthy, the conflicting-arguments
  error. Supplying both a version and a tag is not a reason for rejection.
\<close>

theorem invalid_options_make_no_remote_call:
  assumes "truthy (help_option opts)
           \<or> (\<not> truthy (versionOption opts) \<and> \<not> truthy (versionTag opts))
           \<or> (truthy (opt_create opts) \<longleftrightarrow> truthy (opt_update opts))"
  shows "remote_calls (fst (script w opts)) = [] \<and>
         snd (script w opts) = Inr () \<and>
         fst (script w opts) =
           [if truthy (help_option opts) \<or>
               (\<not> truthy (versionOption opts) \<and> \<not> truthy (versionTag opts) \<and>
                \<not> truthy (opt_create opts) \<and> \<not> truthy (opt_update opts))
            then Log Green help_text
            else if \<not> truthy (versionOption opts) \<and> \<not> truthy (versionTag opts)
            then Log Red missing_version_text
            else if \<not> truthy (opt_create opts) \<and> \<not> truthy (opt_update opts)
            then Log Red missing_mode_text
            else Log Red conflicting_text]"
proof -
  let ?h = "truthy (help_option opts)"
  let ?v = "truthy (version opts)"
  let ?c = "truthy (opt_create opts)"
  let ?u = "truthy (opt_update opts)"
  let ?checked = "validateOptions (help_option opts) (version opts) (opt_create opts) (opt_update opts)"
  have v: "?v \<longleftrightarrow> truthy (versionOption opts) \<or> truthy (versionTag opts)"
    by (rule truthy_version)
  have shape: "script w opts = (if \<not> snd ?checked then (fst ?checked, Inr ()) else script w opts)"
    by (simp add: script_def main_def Let_def)
  consider (usage) "?h" | (nothing_given) "\<not> ?h" "\<not> ?v" "\<not> ?c" "\<not> ?u"
    | (no_version) "\<not> ?h" "\<not> ?v" "?c \<or> ?u"
    | (no_mode) "\<not> ?h" "?v" "\<not> ?c" "\<not> ?u" | (conflict) "\<not> ?h" "?v" "?c" "?u"
    using assms v by blast
  then show ?thesis
  proof cases
    case usage
    then have "?checked = ([Log Green help_text], False)"
      by (simp add: validateOptions_def printHelp_def)
    with usage shape show ?thesis by (simp add: remote_calls_def)
  next
    case nothing_given
    then have "?checked = ([Log Green help_text], False)"
      by (simp add: validateOptions_def printHelp_def)
    with nothing_given shape v show ?thesis by (simp add: remote_calls_def)
  next
    case no_version
    then have "?checked = ([Log Red missing_version_text], False)"
      by (auto simp add: validateOptions_def)
    with no_version shape v show ?thesis by (auto simp add: remote_calls_def)
  next
    case no_mode
    then have "?checked = ([Log Red missing_mode_text], False)"
      by (simp add: validateOptions_def)
    with no_mode shape v show ?thesis by (auto simp add: remote_calls_def)
  next
    case conflict
    then have "?checked = ([Log Red conflicting_text], False)"
      by (simp add: validateOptions_def)
    with conflict shape v show ?thesis by (auto simp add: remote_calls_def)
  qed
qed

text \<open>
  The theorem at \<^verbatim>\<open>--vt=piotr-123 --create --update\<close>, at \<^verbatim>\<open>--create --update\<close> and at
  the empty command line.
\<close>

theorem invalid_options_witness:
  "remote_calls (fst (script calm_world create_and_update)) = [] \<and>
   snd (script calm_world create_and_update) = Inr () \<and>
   fst (script calm_world create_and_update) = [Log Red conflicting_text] \<and>
   remote_calls (fst (script calm_world conflict_without_version)) = [] \<and>
   fst (script calm_world conflict_without_version) = [Log Red missing_version_text] \<and>
   fst (script calm_world no_options) = [Log Green help_text]"
  using invalid_options_make_no_remote_call [of create_and_update calm_world]
    invalid_options_make_no_remote_call [of conflict_without_version calm_world]
    invalid_options_make_no_remote_call [of no_options calm_world]
  by (simp add: create_and_update_def conflict_without_version_def no_options_def
      help_option_def versionOption_def versionTag_def js_or_def remote_calls_def)

text \<open>
  Where the claim as stated fails. The first remote call of a run that is accepted: the
  fork request when \<^verbatim>\<open>create\<close> is truthy, the listing of the categories otherwise.
\<close>

lemma first_remote_call:
  assumes "remote_calls (fst m) = c # cs"
  shows "hd (remote_calls (fst (and_then m f))) = c \<and> remote_calls (fst (and_then m f)) \<noteq> []"
  using assms by (simp add: remote_calls_and_then)

lemma cleanProject_first_call:
  "hd (remote_calls (fst (cleanProject w ver))) = Request (GetCategories ver) \<and>
   remote_calls (fst (cleanProject w ver)) \<noteq> []"
  unfolding cleanProject_def
  by (rule first_remote_call [where cs = "[]"])
    (simp add: getAllCategories_def fetch_def remote_calls_def)

text \<open>
  The script accepts \<^verbatim>\<open>--version=v2018-08-01-piotr-123 --versionTag=piotr-123 --create\<close>,
  where both a version and a tag are supplied, and starts with the fork request.
\<close>

lemma version_and_tag_accepted:
  "opt_version version_and_tag = JStr ''v2018-08-01-piotr-123'' \<and>
   opt_versionTag version_and_tag = JStr ''piotr-123'' \<and>
   truthy (opt_create version_and_tag) \<and> \<not> truthy (opt_update version_and_tag) \<and>
   hd (remote_calls (fst (script calm_world version_and_tag)))
     = Request (PostVersion ''v2018-08-01'' ''v2018-08-01-piotr-123'') \<and>
   remote_calls (fst (script calm_world version_and_tag)) \<noteq> []"
proof -
  have fork: \<open>createNewVersion calm_world ver =
      ([Request (PostVersion ''v2018-08-01'' ver), Await [PostVersion ''v2018-08-01'' ver],
        Log Green (''FORK CREATED! VERSION "'' @ ver @ ''"'')], Inr ())\<close> for ver
    by (simp add: createNewVersion_def calm_world_def mainVersion_def Let_def)
  have "\<exists>f. script calm_world version_and_tag
          = and_then (createNewVersion calm_world ''v2018-08-01-piotr-123'') f"
    apply (simp add: version_and_tag_def no_options_def script_def main_def validateOptions_def
        version_def versionOption_def versionTag_def help_option_def js_or_def mainVersion_def
        Let_def and_then_nil)
    apply (rule exI)
    apply (rule refl)
    done
  then obtain f where "script calm_world version_and_tag
          = and_then (createNewVersion calm_world ''v2018-08-01-piotr-123'') f" ..
  then show ?thesis
    by (simp add: remote_calls_and_then fork version_and_tag_def no_options_def)
      (simp add: remote_calls_def)
qed

text \<open>
  The script accepts \<^verbatim>\<open>--vt=piotr-123 --create=0 --update\<close>, where both \<^verbatim>\<open>create\<close> and
  \<^verbatim>\<open>update\<close> are supplied: the parser delivers the number \<^verbatim>\<open>0\<close>, which is falsy, and the
  run starts with the listing of the categories.
\<close>

lemma falsy_create_with_update_accepted:
  "opt_create falsy_create = JNum 0 \<and> opt_update falsy_create = JBool True \<and>
   hd (remote_calls (fst (script calm_world falsy_create)))
     = Request (GetCategories ''v2018-08-01-piotr-123'') \<and>
   remote_calls (fst (script calm_world falsy_create)) \<noteq> []"
proof -
  have "\<exists>f. script calm_world falsy_create
          = and_then (cleanProject calm_world ''v2018-08-01-piotr-123'') f"
    apply (simp add: falsy_create_def no_options_def script_def main_def validateOptions_def
        version_def versionOption_def versionTag_def help_option_def js_or_def mainVersion_def
        Let_def and_then_nil)
    apply (rule exI)
    apply (rule refl)
    done
  then obtain f where "script calm_world falsy_create
          = and_then (cleanProject calm_world ''v2018-08-01-piotr-123'') f" ..
  moreover obtain cs where "remote_calls (fst (cleanProject calm_world ''v2018-08-01-piotr-123''))
      = Request (GetCategories ''v2018-08-01-piotr-123'') # cs"
    using cleanProject_first_call [of calm_world "''v2018-08-01-piotr-123''"]
    by (cases "remote_calls (fst (cleanProject calm_world ''v2018-08-01-piotr-123''))") auto
  ultimately show ?thesis
    using first_remote_call [of "cleanProject calm_world ''v2018-08-01-piotr-123''" _ cs f]
    by (simp add: falsy_create_def no_options_def)
qed

text \<open>
  At \<^verbatim>\<open>--create --update\<close>, without a version or a tag, the run makes no remote call but
  the error it prints is the missing-version error, not the conflicting-arguments error.
\<close>

lemma conflict_without_version_reports_missing_version:
  "truthy (opt_create conflict_without_version) \<and> truthy (opt_update conflict_without_version) \<and>
   fst (script calm_world conflict_without_version) = [Log Red missing_version_text] \<and>
   missing_version_text \<noteq> conflicting_text"
  by (simp add: script_def main_def validateOptions_def Let_def version_def versionOption_def
      versionTag_def help_option_def js_or_def conflict_without_version_def no_options_def
      missing_version_text_def conflicting_text_def)

text \<open>
  The three inputs together: the claim as stated demands rejection of the first two, and
  the conflicting-arguments error at the third.
\<close>

theorem claimed_rejections_do_not_hold:
  "(opt_version version_and_tag = JStr ''v2018-08-01-piotr-123'' \<and>
    opt_versionTag version_and_tag = JStr ''piotr-123'' \<and>
    truthy (opt_create version_and_tag) \<and> \<not> truthy (opt_update version_and_tag) \<and>
    hd (remote_calls (fst (script calm_world version_and_tag)))
      = Request (PostVersion ''v2018-08-01'' ''v2018-08-01-piotr-123'') \<and>
    remote_calls (fst (script calm_world version_and_tag)) \<noteq> []) \<and>
   (opt_create falsy_create = JNum 0 \<and> opt_update falsy_create = JBool True \<and>
    hd (remote_calls (fst (script calm_world falsy_create)))
      = Request (GetCategories ''v2018-08-01-piotr-123'') \<and>
    remote_calls (fst (script calm_world falsy_create)) \<noteq> []) \<and>
   (truthy (opt_create conflict_without_version) \<and> truthy (opt_update conflict_without_version) \<and>
    fst (script calm_world conflict_without_version) = [Log Red missing_version_text] \<and>
    missing_version_text \<noteq> conflicting_text)"
  using version_and_tag_accepted falsy_create_with_update_accepted
    conflict_without_version_reports_missing_version
  by (intro conjI) blast+

subsection \<open>Uploading the OpenAPI file\<close>

text \<open>
  Claim C4: the upload of the OpenAPI file succeeds if and only if the tool reports an
  ordinary success, which the script reads off a non-empty standard output, or the text of
  the reported error contains the upload-timeout message. In every other case it fails,
  with the text of the error as its message (or a fixed message when no error was
  reported).
\<close>

theorem uploadOpenApiFile_success_iff:
  "(snd (uploadOpenApiFile w ver) = Inr () \<longleftrightarrow>
      stdout (openapi_upload w) \<noteq> [] \<or>
      (\<exists>e. exec_error (openapi_upload w) = Some e \<and>
           includes_str (error_toString e) upload_timed_out)) \<and>
   (snd (uploadOpenApiFile w ver) \<noteq> Inr () \<longrightarrow>
      snd (uploadOpenApiFile w ver) =
        Inl (Error (case exec_error (openapi_upload w) of
                      None \<Rightarrow> ''OPEN API FILE WAS NOT UPLOADED''
                    | Some e \<Rightarrow> error_toString e)))"
  by (cases "exec_error (openapi_upload w)")
    (auto simp add: uploadOpenApiFile_def error_text_def Let_def error_toString_nonempty)

text \<open>
  The theorem at a timed-out upload, at a successful one and at a refused connection.
\<close>

theorem uploadOpenApiFile_success_witness:
  "stdout (openapi_upload settling_world) = [] \<and>
   snd (uploadOpenApiFile settling_world ''v1'') = Inr () \<and>
   snd (uploadOpenApiFile calm_world ''v1'') = Inr () \<and>
   snd (uploadOpenApiFile failing_world ''v1'')
     = Inl (Error ''Error: Command failed: rdme docs ./docs/reference-docs'')"
proof -
  have timed_out: "includes_str (error_toString (Error upload_timed_out)) upload_timed_out"
    using includes_str_self_suffix [of "''Error: ''" upload_timed_out]
    by (simp add: upload_timed_out_def)
  have refused: "\<not> includes_str ''Error: Command failed: rdme docs ./docs/reference-docs'' upload_timed_out"
    by (simp add: upload_timed_out_def)
  show ?thesis
    using uploadOpenApiFile_success_iff [of settling_world "''v1''"]
      uploadOpenApiFile_success_iff [of calm_world "''v1''"]
      uploadOpenApiFile_success_iff [of failing_world "''v1''"] timed_out refused
    by (simp add: settling_world_def failing_world_def calm_world_def upload_timeout_def
        connection_refused_def successful_upload_def)
qed

subsection \<open>One attempt to upload the reference docs\<close>

lemma updateReferenceDocs_result:
  "snd (updateReferenceDocs ver out) =
     Resolved (\<not> includes_str (stderr out) category_not_found \<and>
               includes_str (stdout out) ''successfully created'')"
  by (simp add: updateReferenceDocs_def updateReferenceDocs_callback_def)

lemma updateReferenceDocs_events:
  "fst (updateReferenceDocs ver out) = [Exec (reference_command ver)]"
  by (simp add: updateReferenceDocs_def reference_command_def)

text \<open>
  Claim C9: whatever the subprocess reports (error, standard output and standard error in
  any combination), one reference upload attempt resolves to a boolean. It never rejects
  and its callback never throws.
\<close>

theorem updateReferenceDocs_always_resolves:
  "(\<exists>b. snd (updateReferenceDocs ver out) = Resolved b) \<and>
   (\<forall>e. snd (updateReferenceDocs ver out) \<noteq> Rejected e) \<and>
   (\<forall>e. snd (updateReferenceDocs ver out) \<noteq> Uncaught e)"
  by (simp add: updateReferenceDocs_result)

theorem updateReferenceDocs_resolves_witness:
  "(\<exists>b. snd (updateReferenceDocs ''v1'' connection_refused) = Resolved b) \<and>
   (\<exists>b. snd (updateReferenceDocs ''v1'' category_missing) = Resolved b) \<and>
   (\<exists>b. snd (updateReferenceDocs ''v1'' successful_upload) = Resolved b)"
  using updateReferenceDocs_always_resolves [of "''v1''" connection_refused]
    updateReferenceDocs_always_resolves [of "''v1''" category_missing]
    updateReferenceDocs_always_resolves [of "''v1''" successful_upload]
  by simp

subsection \<open>The retry loop\<close>

text \<open>
  One round of the loop after a failed and after a successful attempt.
\<close>

lemma upload_rounds_failed:
  assumes "snd (updateReferenceDocs ver (reference_upload w (nat (i - 1)))) \<noteq> Resolved True"
  shows "upload_rounds w ver m t i =
     (if i < m
      then and_then ([Exec (reference_command ver), Sleep t], Inr ())
             (\<lambda>_. upload_rounds w ver m t (i + 1))
      else if i = m then ([Exec (reference_command ver)], Inl (Error ''REFERENCE DOC WERE NOT UPLOADED!''))
      else ([], Inr ()))"
proof -
  from assms have "snd (updateReferenceDocs ver (reference_upload w (nat (i - 1)))) = Resolved False"
    by (simp add: updateReferenceDocs_result)
  then show ?thesis
    by (subst upload_rounds.simps) (auto simp add: updateReferenceDocs_events Let_def)
qed

lemma upload_rounds_succeeded:
  assumes "snd (updateReferenceDocs ver (reference_upload w (nat (i - 1)))) = Resolved True"
    and "i \<le> m"
  shows "upload_rounds w ver m t i =
     ([Exec (reference_command ver), Log Green ''REFERENCE DOC FILES WERE UPLOADED!''], Inr ())"
  using assms by (subst upload_rounds.simps) (simp add: updateReferenceDocs_events Let_def)

lemma upload_rounds_starts:
  assumes "i \<le> m"
  shows "\<exists>rest. fst (upload_rounds w ver m t i) = Exec (reference_command ver) # rest"
proof (cases "snd (updateReferenceDocs ver (reference_upload w (nat (i - 1)))) = Resolved True")
  case True
  with assms show ?thesis by (simp add: upload_rounds_succeeded)
next
  case False
  with assms show ?thesis by (simp add: upload_rounds_failed and_then_def)
qed

text \<open>
  Claim C6: with a budget of two attempts and an upload that fails on every call, the
  reference upload throws after exactly two attempts, with one delay between them, and
  makes no third attempt.
\<close>

theorem budget_of_two_fails_after_two_attempts:
  assumes "\<forall>k. snd (updateReferenceDocs ver (reference_upload w k)) \<noteq> Resolved True"
  shows "uploadReferenceDocsWithMaxNumberOfAttempts w ver 2 t =
           ([Log Green ''UPLOADING REFERENCE DOC FILES...'',
             Exec (reference_command ver), Sleep t, Exec (reference_command ver)],
            Inl (Error ''REFERENCE DOC WERE NOT UPLOADED!'')) \<and>
         upload_attempts (fst (uploadReferenceDocsWithMaxNumberOfAttempts w ver 2 t)) = 2"
proof -
  have "upload_rounds w ver 2 t 2 =
      ([Exec (reference_command ver)], Inl (Error ''REFERENCE DOC WERE NOT UPLOADED!''))"
    using assms by (simp add: upload_rounds_failed)
  moreover have "upload_rounds w ver 2 t 1 =
      and_then ([Exec (reference_command ver), Sleep t], Inr ()) (\<lambda>_. upload_rounds w ver 2 t 2)"
    using assms by (simp add: upload_rounds_failed)
  ultimately show ?thesis
    by (simp add: uploadReferenceDocsWithMaxNumberOfAttempts_def console_log_def and_then_def
        upload_attempts_def)
qed

theorem budget_of_two_witness:
  "uploadReferenceDocsWithMaxNumberOfAttempts failing_world ''v1'' 2 5000 =
     ([Log Green ''UPLOADING REFERENCE DOC FILES...'',
       Exec (reference_command ''v1''), Sleep 5000, Exec (reference_command ''v1'')],
      Inl (Error ''REFERENCE DOC WERE NOT UPLOADED!'')) \<and>
   upload_attempts (fst (uploadReferenceDocsWithMaxNumberOfAttempts failing_world ''v1'' 2 5000)) = 2"
proof -
  have "\<forall>k. snd (updateReferenceDocs ''v1'' (reference_upload failing_world k)) \<noteq> Resolved True"
    by (simp add: updateReferenceDocs_result failing_world_def connection_refused_def)
  then show ?thesis
    by (rule budget_of_two_fails_after_two_attempts)
qed

text \<open>
  Claim C7: with a budget of three attempts and an upload that reports the missing
  category on its first two calls and succeeds on the third, the reference upload
  completes after exactly three attempts, with exactly two delays, one between each two
  consecutive attempts.
\<close>

theorem two_misses_then_success:
  assumes "includes_str (stderr (reference_upload w 0)) category_not_found"
    and "includes_str (stderr (reference_upload w 1)) category_not_found"
    and "snd (updateReferenceDocs ver (reference_upload w 2)) = Resolved True"
  shows "uploadReferenceDocsWithMaxNumberOfAttempts w ver 3 t =
           ([Log Green ''UPLOADING REFERENCE DOC FILES...'',
             Exec (reference_command ver), Sleep t,
             Exec (reference_command ver), Sleep t,
             Exec (reference_command ver),
             Log Green ''REFERENCE DOC FILES WERE UPLOADED!''],
            Inr ()) \<and>
         upload_attempts (fst (uploadReferenceDocsWithMaxNumberOfAttempts w ver 3 t)) = 3 \<and>
         sleeps (fst (uploadReferenceDocsWithMaxNumberOfAttempts w ver 3 t)) = [t, t]"
proof -
  have third: "upload_rounds w ver 3 t 3 =
      ([Exec (reference_command ver), Log Green ''REFERENCE DOC FILES WERE UPLOADED!''], Inr ())"
    using assms(3) by (simp add: upload_rounds_succeeded)
  have second: "upload_rounds w ver 3 t 2 =
      and_then ([Exec (reference_command ver), Sleep t], Inr ()) (\<lambda>_. upload_rounds w ver 3 t 3)"
    using assms(2) by (simp add: upload_rounds_failed updateReferenceDocs_result)
  have first: "upload_rounds w ver 3 t 1 =
      and_then ([Exec (reference_command ver), Sleep t], Inr ()) (\<lambda>_. upload_rounds w ver 3 t 2)"
    using assms(1) by (simp add: upload_rounds_failed updateReferenceDocs_result)
  show ?thesis
    by (simp add: uploadReferenceDocsWithMaxNumberOfAttempts_def console_log_def and_then_def
        upload_attempts_def first second third)
qed

theorem two_misses_witness:
  "uploadReferenceDocsWithMaxNumberOfAttempts settling_world ''v1'' 3 5000 =
           ([Log Green ''UPLOADING REFERENCE DOC FILES...'',
             Exec (reference_command ''v1''), Sleep 5000,
             Exec (reference_command ''v1''), Sleep 5000,
             Exec (reference_command ''v1''),
             Log Green ''REFERENCE DOC FILES WERE UPLOADED!''],
            Inr ()) \<and>
   sleeps (fst (uploadReferenceDocsWithMaxNumberOfAttempts settling_world ''v1'' 3 5000))
     = [5000, 5000]"
proof -
  have miss: "includes_str category_not_found category_not_found"
    using includes_str_self_suffix [of "[]" category_not_found] by simp
  have "includes_str (stderr (reference_upload settling_world 0)) category_not_found"
    and "includes_str (stderr (reference_upload settling_world 1)) category_not_found"
    and "snd (updateReferenceDocs ''v1'' (reference_upload settling_world 2)) = Resolved True"
    using miss
    by (simp_all add: settling_world_def category_missing_def successful_upload_def
        updateReferenceDocs_result category_not_found_def)
  then show ?thesis
    using two_misses_then_success [of settling_world "''v1''" 5000] by simp
qed

text \<open>
  Claim C5, as amended: every attempt that does not report success is treated as
  retryable, whether the tool reported the missing category or anything else (an attempt
  that reports the missing category counts as failed even if the standard output
  announces success). Such an attempt resolves to \<^verbatim>\<open>false\<close>, and while the budget is not
  exhausted the loop sleeps for the fixed delay and attempts the upload again.
\<close>

theorem every_failed_attempt_is_retried:
  assumes "includes_str (stderr (reference_upload w (nat (i - 1)))) category_not_found \<or>
           \<not> includes_str (stdout (reference_upload w (nat (i - 1)))) ''successfully created''"
    and "i < m"
  shows "snd (updateReferenceDocs ver (reference_upload w (nat (i - 1)))) = Resolved False \<and>
         upload_rounds w ver m t i =
           and_then ([Exec (reference_command ver), Sleep t], Inr ())
             (\<lambda>_. upload_rounds w ver m t (i + 1)) \<and>
         (\<exists>rest. fst (upload_rounds w ver m t i) =
            Exec (reference_command ver) # Sleep t # Exec (reference_command ver) # rest)"
proof -
  from assms(1) have failed:
    "snd (updateReferenceDocs ver (reference_upload w (nat (i - 1)))) = Resolved False"
    by (auto simp add: updateReferenceDocs_result)
  then have step: "upload_rounds w ver m t i =
      and_then ([Exec (reference_command ver), Sleep t], Inr ())
        (\<lambda>_. upload_rounds w ver m t (i + 1))"
    using assms(2) by (simp add: upload_rounds_failed)
  from assms(2) have "i + 1 \<le> m" by simp
  from upload_rounds_starts [OF this, of w ver t] obtain rest
    where "fst (upload_rounds w ver m t (i + 1)) = Exec (reference_command ver) # rest" ..
  with step have "fst (upload_rounds w ver m t i) =
      Exec (reference_command ver) # Sleep t # Exec (reference_command ver) # rest"
    by (simp add: and_then_def)
  with failed step show ?thesis by blast
qed

theorem failed_attempt_witness:
  "\<not> includes_str (stdout (reference_upload failing_world (nat (1 - 1)))) ''successfully created'' \<and>
   snd (updateReferenceDocs ''v1'' (reference_upload failing_world (nat (1 - 1)))) = Resolved False \<and>
   (\<exists>rest. fst (upload_rounds failing_world ''v1'' 6 5000 1) =
      Exec (reference_command ''v1'') # Sleep 5000 # Exec (reference_command ''v1'') # rest)"
proof -
  have silent:
    "\<not> includes_str (stdout (reference_upload failing_world (nat (1 - 1)))) ''successfully created''"
    by (simp add: failing_world_def connection_refused_def)
  then have premise:
    "includes_str (stderr (reference_upload failing_world (nat (1 - 1)))) category_not_found \<or>
     \<not> includes_str (stdout (reference_upload failing_world (nat (1 - 1)))) ''successfully created''"
    by blast
  have budget: "(1::int) < 6" by simp
  note retried = every_failed_attempt_is_retried [OF premise budget, of "''v1''" 5000]
  from silent retried [THEN conjunct1] retried [THEN conjunct2, THEN conjunct2]
  show ?thesis by (intro conjI)
qed

text \<open>
  The claim as stated restricts retries to the missing-category condition. A refused
  connection, which is not that condition, is followed by the delay and a second attempt,
  and the run then succeeds.
\<close>

theorem other_failure_is_retried:
  "\<not> includes_str (stderr (reference_upload recovering_world 0)) category_not_found \<and>
   \<not> includes_str (stdout (reference_upload recovering_world 0)) ''successfully created'' \<and>
   uploadReferenceDocsWithMaxNumberOfAttempts recovering_world ''v1'' 2 5000 =
     ([Log Green ''UPLOADING REFERENCE DOC FILES...'',
       Exec (reference_command ''v1''), Sleep 5000, Exec (reference_command ''v1''),
       Log Green ''REFERENCE DOC FILES WERE UPLOADED!''],
      Inr ())"
proof -
  have first: "\<not> includes_str (stderr (reference_upload recovering_world 0)) category_not_found"
    and silent: "\<not> includes_str (stdout (reference_upload recovering_world 0)) ''successfully created''"
    by (simp_all add: recovering_world_def connection_refused_def category_not_found_def)
  have second: "snd (updateReferenceDocs ''v1'' (reference_upload recovering_world 1)) = Resolved True"
    by (simp add: updateReferenceDocs_result recovering_world_def successful_upload_def
        category_not_found_def)
  have "upload_rounds recovering_world ''v1'' 2 5000 2 =
      ([Exec (reference_command ''v1''), Log Green ''REFERENCE DOC FILES WERE UPLOADED!''], Inr ())"
    using second by (simp add: upload_rounds_succeeded)
  moreover have "upload_rounds recovering_world ''v1'' 2 5000 1 =
      and_then ([Exec (reference_command ''v1''), Sleep 5000], Inr ())
        (\<lambda>_. upload_rounds recovering_world ''v1'' 2 5000 2)"
  proof -
    have "snd (updateReferenceDocs ''v1'' (reference_upload recovering_world (nat (1 - 1))))
        \<noteq> Resolved True"
      using silent by (simp add: updateReferenceDocs_result)
    from upload_rounds_failed [OF this, of 2 5000] show ?thesis by simp
  qed
  ultimately show ?thesis
    using first silent
    by (simp add: uploadReferenceDocsWithMaxNumberOfAttempts_def console_log_def and_then_def)
qed

subsection \<open>Traces of \<^verbatim>\<open>asyncMap\<close> and of the creation loop\<close>

lemma asyncMap_events:
  "set (fst (asyncMap arr f)) \<subseteq> Request ` set (issued (map f arr)) \<union> {Await (issued (map f arr))}"
  by (auto simp add: asyncMap_def Let_def split: list.splits)

lemma asyncMap_requests:
  "Request r \<in> set (fst (asyncMap arr f)) \<longleftrightarrow> r \<in> set (issued (map f arr))"
  by (auto simp add: asyncMap_def Let_def split: list.splits)

lemma asyncMap_no_log: "Log c s \<notin> set (fst (asyncMap arr f))"
  using asyncMap_events [of arr f] by auto

lemma asyncMap_thrown:
  "thrown (map f arr) \<noteq> [] \<Longrightarrow> snd (asyncMap arr f) = Inl (hd (thrown (map f arr)))"
  by (simp add: asyncMap_def Let_def split: list.splits)

lemma asyncMap_all_respond:
  assumes "\<forall>x\<in>set arr. \<exists>r. f x = Pending r (Responds ())"
  shows "snd (asyncMap arr f) = Inr ()"
proof -
  from assms have "thrown (map f arr) = [] \<and> rejections (map f arr) = []"
    by (induction arr) auto
  then show ?thesis by (simp add: asyncMap_def Let_def)
qed

lemma asyncMap_no_creation:
  assumes "\<forall>r\<in>set (issued (map f arr)). \<not> creates r"
  shows "filter is_creation (fst (asyncMap arr f)) = []"
proof -
  have "\<not> is_creation e" if "e \<in> set (fst (asyncMap arr f))" for e
    using that asyncMap_events [of arr f] assms by (auto simp add: list_ex_iff)
  then show ?thesis by (simp add: filter_empty_conv)
qed

lemma issued_deleteCategory:
  "issued (map (\<lambda>c. deleteCategory w ver (slug c)) cs) = map (\<lambda>c. DeleteCategory ver (slug c)) cs"
  by (induction cs) (simp_all add: deleteCategory_def)

lemma issued_deleteSpecification:
  "issued (map (deleteSpecification w) specs) =
     map (\<lambda>spec. DeleteApiSpecification ''[object Object]'') specs"
  by (induction specs) (simp_all add: deleteSpecification_def)

lemma issued_updateReferenceCategory:
  "set (issued (map (updateReferenceCategory w ver cats) ts)) =
     {PutCategory ver (slug c) ''reference'' | t c.
        t \<in> set ts \<and> find (\<lambda>c. title c = t) cats = Some c}"
  by (induction ts)
    (auto simp add: updateReferenceCategory_def updateCategory_def split: option.splits)

lemma updateReferenceCategory_found:
  assumes "t \<in> title ` set cats"
  shows "\<exists>c. find (\<lambda>c. title c = t) cats = Some c \<and> title c = t \<and> c \<in> set cats \<and>
             updateReferenceCategory w ver cats t
               = Pending (PutCategory ver (slug c) ''reference'') (update_category w (slug c))"
proof (cases "find (\<lambda>c. title c = t) cats")
  case None
  with assms show ?thesis by (auto simp add: find_None_iff)
next
  case (Some c)
  then have "title c = t" "c \<in> set cats"
    by (auto simp add: find_Some_iff)
  with Some show ?thesis
    by (simp add: updateReferenceCategory_def updateCategory_def)
qed

lemma updateReferenceCategory_missing:
  assumes "t \<notin> title ` set cats"
  shows "updateReferenceCategory w ver cats t = Rejected_now slug_of_undefined"
proof -
  from assms have "find (\<lambda>c. title c = t) cats = None"
    by (auto simp add: find_None_iff)
  then show ?thesis by (simp add: updateReferenceCategory_def)
qed

lemma thrown_updateReferenceCategory:
  "set (thrown (map (updateReferenceCategory w ver cats) ts)) =
     (if set ts \<subseteq> title ` set cats then {} else {slug_of_undefined})"
proof (induction ts)
  case Nil
  then show ?case by simp
next
  case (Cons t ts)
  show ?case
  proof (cases "t \<in> title ` set cats")
    case True
    from updateReferenceCategory_found [OF True, of w ver] Cons True show ?thesis
      by (auto split: if_splits)
  next
    case False
    from updateReferenceCategory_missing [OF False, of w ver] Cons False show ?thesis
      by (auto split: if_splits)
  qed
qed

lemma update_lookup_fails:
  assumes "\<not> set ts \<subseteq> title ` set cats"
  shows "snd (asyncMap ts (updateReferenceCategory w ver cats)) = Inl slug_of_undefined"
    and "Await rs \<notin> set (fst (asyncMap ts (updateReferenceCategory w ver cats)))"
proof -
  let ?th = "thrown (map (updateReferenceCategory w ver cats) ts)"
  from assms have only: "set ?th = {slug_of_undefined}"
    by (simp add: thrown_updateReferenceCategory)
  then have ne: "?th \<noteq> []" by auto
  then have "hd ?th \<in> set ?th" by simp
  with only have "hd ?th = slug_of_undefined" by simp
  with ne show "snd (asyncMap ts (updateReferenceCategory w ver cats)) = Inl slug_of_undefined"
    by (simp add: asyncMap_thrown)
  from ne show "Await rs \<notin> set (fst (asyncMap ts (updateReferenceCategory w ver cats)))"
    by (auto simp add: asyncMap_def Let_def split: list.splits)
qed

lemma delete_no_creation:
  "filter is_creation (fst (asyncMap cs (\<lambda>c. deleteCategory w ver (slug c)))) = []"
  by (rule asyncMap_no_creation) (auto simp add: issued_deleteCategory)

lemma update_no_creation:
  "filter is_creation (fst (asyncMap ts (updateReferenceCategory w ver cats))) = []"
  by (rule asyncMap_no_creation) (auto simp add: issued_updateReferenceCategory)

lemma deleteSpecification_no_creation:
  "filter is_creation (fst (asyncMap specs (deleteSpecification w))) = []"
  by (rule asyncMap_no_creation) (auto simp add: issued_deleteSpecification)

lemma createCategories_trace:
  "prefix (fst (createCategories w ver ts)) (creation_sequence ver ts) \<and>
   (snd (createCategories w ver ts) = Inr () \<longrightarrow>
      fst (createCategories w ver ts) = creation_sequence ver ts)"
  by (induction ts)
    (auto simp add: creation_sequence_def createCategory_def fetch_def and_then_def
      split: sum.splits fetch_result.splits)

lemma creation_sequence_append:
  "creation_sequence ver (ts @ us) = creation_sequence ver ts @ creation_sequence ver us"
  by (simp add: creation_sequence_def)

lemma creation_events_sequence:
  "filter is_creation (creation_sequence ver ts) = creation_sequence ver ts"
  by (induction ts) (simp_all add: creation_sequence_def)

lemma creation_events_createCategories:
  "filter is_creation (fst (createCategories w ver ts)) = fst (createCategories w ver ts)"
proof -
  obtain rest where "creation_sequence ver ts = fst (createCategories w ver ts) @ rest"
    using createCategories_trace [of w ver ts] by (auto simp add: prefix_def)
  then have "filter is_creation (fst (createCategories w ver ts) @ rest)
      = fst (createCategories w ver ts) @ rest"
    using creation_events_sequence [of ver ts] by simp
  then have "\<forall>x\<in>set (fst (createCategories w ver ts) @ rest). is_creation x"
    by (simp only: filter_id_conv)
  then show ?thesis
    by (simp add: filter_id_conv)
qed

lemma createCategories_only_creations:
  "e \<in> set (fst (createCategories w ver ts)) \<Longrightarrow> is_creation e"
  using creation_events_createCategories [of w ver ts] by (simp add: filter_id_conv)

lemma createCategories_no_log: "Log c s \<notin> set (fst (createCategories w ver ts))"
  using createCategories_only_creations [of "Log c s" w ver ts] by auto

lemma createCategories_no_update:
  "Request (PutCategory v s k) \<notin> set (fst (createCategories w ver ts))"
  using createCategories_only_creations [of "Request (PutCategory v s k)" w ver ts] by auto

lemma createCategories_all_respond:
  assumes "\<forall>t\<in>set ts. create_category w t = Responds ()"
  shows "snd (createCategories w ver ts) = Inr ()"
  using assms by (induction ts) (simp_all add: snd_and_then createCategory_def fetch_simps)

subsection \<open>Cleaning a version\<close>

text \<open>
  The run gets past the creation loop, and logs it, exactly when the first listing, all
  deletions and all creations went through.
\<close>

lemma cleanProject_reaches_refetch:
  \<open>Log Green ''NEW CATEGORIES CREATED!'' \<in> set (fst (cleanProject w ver)) \<longleftrightarrow>
     (\<exists>old. categories_before w = Responds old \<and>
        snd (asyncMap old (\<lambda>category. deleteCategory w ver (slug category))) = Inr () \<and>
        snd (createCategories w ver (listOfGuideCategories @ listOfReferenceCategories)) = Inr ())\<close>
  by (auto simp add: cleanProject_def set_and_then getAllCategories_def getAllApiSpecifications_def
      fetch_simps console_log_simps asyncMap_no_log createCategories_no_log
      split: sum.splits fetch_result.splits)

lemma creation_events_cleanProject:
  "creation_events (fst (cleanProject w ver)) =
     (case categories_before w of
        Rejects e \<Rightarrow> []
      | Responds old \<Rightarrow>
          (case snd (asyncMap old (\<lambda>category. deleteCategory w ver (slug category))) of
             Inl e \<Rightarrow> []
           | Inr u \<Rightarrow> fst (createCategories w ver (listOfGuideCategories @ listOfReferenceCategories))))"
  by (simp add: creation_events_def cleanProject_def filter_and_then getAllCategories_def
      getAllApiSpecifications_def fetch_simps console_log_simps delete_no_creation
      update_no_creation deleteSpecification_no_creation creation_events_createCategories
      split: sum.splits fetch_result.splits)

lemma cleanProject_completes:
  assumes "snd (cleanProject w ver) = Inr ()"
  shows "\<exists>cats. categories_after w = Responds cats \<and>
           snd (asyncMap listOfReferenceCategories (updateReferenceCategory w ver cats)) = Inr ()"
    and \<open>Log Green ''NEW CATEGORIES CREATED!'' \<in> set (fst (cleanProject w ver))\<close>
  using assms unfolding cleanProject_reaches_refetch
  by (auto simp add: cleanProject_def snd_and_then_Inr getAllCategories_def fetch_simps
      split: fetch_result.splits)

lemma cleanProject_update_requests:
  \<open>Request (PutCategory v s k) \<in> set (fst (cleanProject w ver)) \<longleftrightarrow>
     Log Green ''NEW CATEGORIES CREATED!'' \<in> set (fst (cleanProject w ver)) \<and>
     (\<exists>cats. categories_after w = Responds cats \<and>
        PutCategory v s k \<in> set (issued (map (updateReferenceCategory w ver cats) listOfReferenceCategories)))\<close>
  unfolding cleanProject_reaches_refetch
  by (auto simp add: cleanProject_def set_and_then getAllCategories_def getAllApiSpecifications_def
      fetch_simps console_log_simps asyncMap_requests issued_deleteCategory
      issued_deleteSpecification createCategories_no_update
      split: sum.splits fetch_result.splits)

lemma cleanProject_lookup_failure:
  assumes \<open>Log Green ''NEW CATEGORIES CREATED!'' \<in> set (fst (cleanProject w ver))\<close>
    and "categories_after w = Responds cats"
    and "\<not> set listOfReferenceCategories \<subseteq> title ` set cats"
  shows "snd (cleanProject w ver) = Inl slug_of_undefined"
    and \<open>Log Green ''REFERENCE CATEGORIES UPDATED!'' \<notin> set (fst (cleanProject w ver))\<close>
  using assms(1,2) update_lookup_fails [OF assms(3)]
  unfolding cleanProject_reaches_refetch
  by (auto simp add: cleanProject_def snd_and_then set_and_then getAllCategories_def fetch_simps
      console_log_simps asyncMap_no_log createCategories_no_log)

lemma cleanProject_completes_if:
  assumes "categories_before w = Responds old"
    and "\<forall>s. delete_category w s = Responds ()"
    and "\<forall>t. create_category w t = Responds ()"
    and "categories_after w = Responds cats"
    and "set listOfReferenceCategories \<subseteq> title ` set cats"
    and "\<forall>s. update_category w s = Responds ()"
    and "api_specifications w = Responds specs"
    and "\<forall>p. delete_specification w p = Responds ()"
  shows "snd (cleanProject w ver) = Inr ()"
proof -
  have del: "snd (asyncMap old (\<lambda>category. deleteCategory w ver (slug category))) = Inr ()"
    using assms(2) by (intro asyncMap_all_respond) (simp add: deleteCategory_def)
  have cre: "snd (createCategories w ver (listOfGuideCategories @ listOfReferenceCategories)) = Inr ()"
    using assms(3) by (intro createCategories_all_respond) simp
  have upd: "snd (asyncMap listOfReferenceCategories (updateReferenceCategory w ver cats)) = Inr ()"
  proof (intro asyncMap_all_respond ballI)
    fix t assume "t \<in> set listOfReferenceCategories"
    with assms(5) have "t \<in> title ` set cats" by blast
    from updateReferenceCategory_found [OF this, of w ver] assms(6)
    show "\<exists>r. updateReferenceCategory w ver cats t = Pending r (Responds ())" by auto
  qed
  have spe: "snd (asyncMap specs (deleteSpecification w)) = Inr ()"
    using assms(8) by (intro asyncMap_all_respond) (simp add: deleteSpecification_def)
  show ?thesis
    using assms(1,4,7) del cre upd spe
    by (simp add: cleanProject_def snd_and_then getAllCategories_def getAllApiSpecifications_def
        fetch_simps console_log_simps)
qed

lemma reaches_refetch_if:
  assumes "categories_before w = Responds old"
    and "\<forall>s. delete_category w s = Responds ()"
    and "\<forall>t. create_category w t = Responds ()"
  shows \<open>Log Green ''NEW CATEGORIES CREATED!'' \<in> set (fst (cleanProject w ver))\<close>
proof -
  have "snd (asyncMap old (\<lambda>category. deleteCategory w ver (slug category))) = Inr ()"
    using assms(2) by (intro asyncMap_all_respond) (simp add: deleteCategory_def)
  moreover have "snd (createCategories w ver (listOfGuideCategories @ listOfReferenceCategories)) = Inr ()"
    using assms(3) by (intro createCategories_all_respond) simp
  ultimately show ?thesis
    using assms(1) by (simp add: cleanProject_reaches_refetch)
qed

lemma calm_world_completes: "snd (cleanProject calm_world ver) = Inr ()"
  by (rule cleanProject_completes_if [where old = "[\<lparr>slug = ''old'', title = ''Old''\<rparr>]"
        and cats = "[\<lparr>slug = ''introduction'', title = ''Introduction''\<rparr>]"
        and specs = "[\<lparr>spec_id = ''abc'', spec_title = ''Voucherify''\<rparr>]"])
    (simp_all add: calm_world_def listOfReferenceCategories_def)

lemma twin_world_completes: "snd (cleanProject twin_world ver) = Inr ()"
  by (rule cleanProject_completes_if
        [where old = "[\<lparr>slug = ''introduction'', title = ''Introduction''\<rparr>]"
        and cats = "[\<lparr>slug = ''introduction'', title = ''Introduction''\<rparr>,
                     \<lparr>slug = ''introduction-1'', title = ''Introduction''\<rparr>]"
        and specs = "[\<lparr>spec_id = ''abc'', spec_title = ''Voucherify''\<rparr>]"])
    (simp_all add: twin_world_def calm_world_def listOfReferenceCategories_def)

text \<open>
  Claim C3: in every run of \<^verbatim>\<open>cleanProject\<close> the creation requests are issued one at a
  time, each awaited before the next is issued, the guide categories before the reference
  categories and each group in its configured order. A run that a failing request ends
  early has issued an initial part of that sequence; a run that gets past the creation
  loop, in particular one that completes, has issued all of it.
\<close>

theorem creations_follow_configured_order:
  \<open>prefix (creation_events (fst (cleanProject w ver)))
      (creation_sequence ver listOfGuideCategories @ creation_sequence ver listOfReferenceCategories) \<and>
   (Log Green ''NEW CATEGORIES CREATED!'' \<in> set (fst (cleanProject w ver)) \<longrightarrow>
      creation_events (fst (cleanProject w ver)) =
        creation_sequence ver listOfGuideCategories @ creation_sequence ver listOfReferenceCategories) \<and>
   (snd (cleanProject w ver) = Inr () \<longrightarrow>
      creation_events (fst (cleanProject w ver)) =
        creation_sequence ver listOfGuideCategories @ creation_sequence ver listOfReferenceCategories)\<close>
proof -
  let ?all = "listOfGuideCategories @ listOfReferenceCategories"
  let ?seq = "creation_sequence ver listOfGuideCategories @ creation_sequence ver listOfReferenceCategories"
  have seq: "?seq = creation_sequence ver ?all"
    by (simp add: creation_sequence_append)
  have loop: "prefix (fst (createCategories w ver ?all)) ?seq"
    and whole: "snd (createCategories w ver ?all) = Inr () \<Longrightarrow> fst (createCategories w ver ?all) = ?seq"
    using createCategories_trace [of w ver ?all] unfolding seq by blast+
  have "prefix (creation_events (fst (cleanProject w ver))) ?seq"
    using loop by (simp add: creation_events_cleanProject split: fetch_result.split sum.split)
  moreover have reached: "creation_events (fst (cleanProject w ver)) = ?seq"
    if \<open>Log Green ''NEW CATEGORIES CREATED!'' \<in> set (fst (cleanProject w ver))\<close>
    using that whole unfolding cleanProject_reaches_refetch
    by (auto simp add: creation_events_cleanProject)
  moreover have "creation_events (fst (cleanProject w ver)) = ?seq"
    if "snd (cleanProject w ver) = Inr ()"
    using cleanProject_completes(2) [OF that] by (rule reached)
  ultimately show ?thesis by blast
qed

theorem creations_order_witness:
  "snd (cleanProject calm_world ''v1'') = Inr () \<and>
   creation_events (fst (cleanProject calm_world ''v1'')) =
     creation_sequence ''v1'' listOfGuideCategories @ creation_sequence ''v1'' listOfReferenceCategories"
  using creations_follow_configured_order [of calm_world "''v1''"] calm_world_completes [of "''v1''"]
  by simp

text \<open>
  Claim C8, as amended: after \<^verbatim>\<open>cleanProject\<close> completes, for every title of the
  reference list the first category of the second listing that carries this title has been
  sent an update of its kind to \<^verbatim>\<open>reference\<close>; and every kind update that was issued
  is such an update, so none is issued for a category found under another title.
\<close>

theorem reference_titles_are_updated:
  assumes "snd (cleanProject w ver) = Inr ()"
  shows "\<exists>cats. categories_after w = Responds cats \<and>
           (\<forall>t\<in>set listOfReferenceCategories.
              \<exists>c. find (\<lambda>category. title category = t) cats = Some c \<and>
                  Request (PutCategory ver (slug c) ''reference'') \<in> set (fst (cleanProject w ver))) \<and>
           (\<forall>v s k. Request (PutCategory v s k) \<in> set (fst (cleanProject w ver)) \<longrightarrow>
              v = ver \<and> k = ''reference'' \<and>
              (\<exists>t\<in>set listOfReferenceCategories.
                 \<exists>c. find (\<lambda>category. title category = t) cats = Some c \<and> s = slug c))"
proof -
  from cleanProject_completes [OF assms] obtain cats
    where cats: "categories_after w = Responds cats"
      and upd: "snd (asyncMap listOfReferenceCategories (updateReferenceCategory w ver cats)) = Inr ()"
      and reached: \<open>Log Green ''NEW CATEGORIES CREATED!'' \<in> set (fst (cleanProject w ver))\<close>
    by blast
  have present: "set listOfReferenceCategories \<subseteq> title ` set cats"
  proof (rule ccontr)
    assume "\<not> set listOfReferenceCategories \<subseteq> title ` set cats"
    from update_lookup_fails(1) [OF this, of w ver] upd show False by simp
  qed
  have "\<exists>c. find (\<lambda>category. title category = t) cats = Some c \<and>
            Request (PutCategory ver (slug c) ''reference'') \<in> set (fst (cleanProject w ver))"
    if t: "t \<in> set listOfReferenceCategories" for t
  proof -
    from t present have "t \<in> title ` set cats" by blast
    from updateReferenceCategory_found [OF this, of w ver] obtain c
      where c: "find (\<lambda>c. title c = t) cats = Some c" by blast
    with t have "PutCategory ver (slug c) ''reference''
        \<in> set (issued (map (updateReferenceCategory w ver cats) listOfReferenceCategories))"
      by (auto simp add: issued_updateReferenceCategory)
    with reached cats c show ?thesis
      by (auto simp add: cleanProject_update_requests)
  qed
  moreover have "v = ver \<and> k = ''reference'' \<and>
      (\<exists>t\<in>set listOfReferenceCategories.
         \<exists>c. find (\<lambda>category. title category = t) cats = Some c \<and> s = slug c)"
    if "Request (PutCategory v s k) \<in> set (fst (cleanProject w ver))" for v s k
    using that cats
    by (auto simp add: cleanProject_update_requests issued_updateReferenceCategory)
  ultimately show ?thesis using cats by blast
qed

theorem reference_titles_witness:
  "snd (cleanProject calm_world ''v1'') = Inr () \<and>
   Request (PutCategory ''v1'' ''introduction'' ''reference'')
     \<in> set (fst (cleanProject calm_world ''v1''))"
  using reference_titles_are_updated [OF calm_world_completes, of "''v1''"]
    calm_world_completes [of "''v1''"]
  by (auto simp add: calm_world_def listOfReferenceCategories_def)

text \<open>
  The claim as stated speaks of every category whose title is in the reference list. When
  the second listing shows two categories titled \<^verbatim>\<open>Introduction\<close>, the run completes and
  only the first of them, the older one, is updated; the one just created is not.
\<close>

theorem second_category_of_a_title_is_not_updated:
  "categories_after twin_world =
     Responds [\<lparr>slug = ''introduction'', title = ''Introduction''\<rparr>,
               \<lparr>slug = ''introduction-1'', title = ''Introduction''\<rparr>] \<and>
   ''Introduction'' \<in> set listOfReferenceCategories \<and>
   snd (cleanProject twin_world ''v1'') = Inr () \<and>
   Request (PutCategory ''v1'' ''introduction'' ''reference'')
     \<in> set (fst (cleanProject twin_world ''v1'')) \<and>
   Request (PutCategory ''v1'' ''introduction-1'' ''reference'')
     \<notin> set (fst (cleanProject twin_world ''v1''))"
proof -
  have older: "Request (PutCategory ''v1'' ''introduction'' ''reference'')
     \<in> set (fst (cleanProject twin_world ''v1''))"
    using cleanProject_completes(2) [OF twin_world_completes, of "''v1''"]
    by (simp add: cleanProject_update_requests issued_updateReferenceCategory)
      (auto simp add: twin_world_def calm_world_def listOfReferenceCategories_def)
  have newer: "Request (PutCategory ''v1'' ''introduction-1'' ''reference'')
     \<notin> set (fst (cleanProject twin_world ''v1''))"
    by (simp add: cleanProject_update_requests issued_updateReferenceCategory)
      (auto simp add: twin_world_def calm_world_def listOfReferenceCategories_def)
  from older newer show ?thesis
    using twin_world_completes [of "''v1''"]
    by (simp add: twin_world_def listOfReferenceCategories_def)
qed

text \<open>
  Claim C10: once the categories are listed again, the update of the reference kinds
  relies on every title of the reference list occurring in that listing. If every title
  occurs, no lookup of a slug throws and an update is issued for each title. If a title
  is missing, \<^verbatim>\<open>cleanProject\<close> ends with the \<^verbatim>\<open>TypeError\<close> of reading \<^verbatim>\<open>slug\<close> of
  \<^verbatim>\<open>undefined\<close>; it neither completes nor reports that the reference categories were
  updated.
\<close>

theorem missing_reference_title_crashes:
  assumes \<open>Log Green ''NEW CATEGORIES CREATED!'' \<in> set (fst (cleanProject w ver))\<close>
    and "categories_after w = Responds cats"
  shows "(set listOfReferenceCategories \<subseteq> title ` set cats \<longrightarrow>
            thrown (map (updateReferenceCategory w ver cats) listOfReferenceCategories) = [] \<and>
            (\<forall>t\<in>set listOfReferenceCategories.
               \<exists>c. find (\<lambda>category. title category = t) cats = Some c \<and>
                   Request (PutCategory ver (slug c) ''reference'')
                     \<in> set (fst (cleanProject w ver)))) \<and>
         (\<not> set listOfReferenceCategories \<subseteq> title ` set cats \<longrightarrow>
            snd (cleanProject w ver) = Inl slug_of_undefined \<and>
            Log Green ''REFERENCE CATEGORIES UPDATED!'' \<notin> set (fst (cleanProject w ver)))"
proof (intro conjI impI)
  assume present: "set listOfReferenceCategories \<subseteq> title ` set cats"
  then have "set (thrown (map (updateReferenceCategory w ver cats) listOfReferenceCategories)) = {}"
    by (simp add: thrown_updateReferenceCategory)
  then show "thrown (map (updateReferenceCategory w ver cats) listOfReferenceCategories) = []"
    by simp
  show "\<forall>t\<in>set listOfReferenceCategories.
      \<exists>c. find (\<lambda>category. title category = t) cats = Some c \<and>
          Request (PutCategory ver (slug c) ''reference'') \<in> set (fst (cleanProject w ver))"
  proof
    fix t assume t: "t \<in> set listOfReferenceCategories"
    with present have "t \<in> title ` set cats" by blast
    from updateReferenceCategory_found [OF this, of w ver] obtain c
      where c: "find (\<lambda>c. title c = t) cats = Some c" by blast
    with t have "PutCategory ver (slug c) ''reference''
        \<in> set (issued (map (updateReferenceCategory w ver cats) listOfReferenceCategories))"
      by (auto simp add: issued_updateReferenceCategory)
    with assms c show "\<exists>c. find (\<lambda>category. title category = t) cats = Some c \<and>
          Request (PutCategory ver (slug c) ''reference'') \<in> set (fst (cleanProject w ver))"
      by (auto simp add: cleanProject_update_requests)
  qed
next
  assume "\<not> set listOfReferenceCategories \<subseteq> title ` set cats"
  then show "snd (cleanProject w ver) = Inl slug_of_undefined"
    by (rule cleanProject_lookup_failure(1) [OF assms])
next
  assume "\<not> set listOfReferenceCategories \<subseteq> title ` set cats"
  then show \<open>Log Green ''REFERENCE CATEGORIES UPDATED!'' \<notin> set (fst (cleanProject w ver))\<close>
    by (rule cleanProject_lookup_failure(2) [OF assms])
qed

theorem missing_reference_title_witness:
  "categories_after bare_world = Responds [\<lparr>slug = ''getting-started'', title = ''Getting started''\<rparr>] \<and>
   snd (cleanProject bare_world ''v1'') = Inl slug_of_undefined \<and>
   thrown (map (updateReferenceCategory calm_world ''v1''
                  [\<lparr>slug = ''introduction'', title = ''Introduction''\<rparr>])
             listOfReferenceCategories) = []"
proof -
  have bare: \<open>Log Green ''NEW CATEGORIES CREATED!'' \<in> set (fst (cleanProject bare_world ''v1''))\<close>
    by (rule reaches_refetch_if [where old = "[\<lparr>slug = ''old'', title = ''Old''\<rparr>]"])
      (simp_all add: bare_world_def calm_world_def)
  have calm: \<open>Log Green ''NEW CATEGORIES CREATED!'' \<in> set (fst (cleanProject calm_world ''v1''))\<close>
    by (rule reaches_refetch_if [where old = "[\<lparr>slug = ''old'', title = ''Old''\<rparr>]"])
      (simp_all add: calm_world_def)
  have bare_cats: "categories_after bare_world =
      Responds [\<lparr>slug = ''getting-started'', title = ''Getting started''\<rparr>]"
    by (simp add: bare_world_def)
  have calm_cats: "categories_after calm_world =
      Responds [\<lparr>slug = ''introduction'', title = ''Introduction''\<rparr>]"
    by (simp add: calm_world_def)
  show ?thesis
    using missing_reference_title_crashes [OF bare bare_cats]
      missing_reference_title_crashes [OF calm calm_cats] bare_cats
    by (simp add: listOfReferenceCategories_def)
qed

end
